theory Spec2Isabelle
  imports Complex_Main "HOL-Library.Sublist"
begin

section \<open>Python strings\<close>

text \<open>
  A prompt is a Python \<^verbatim>\<open>str\<close>. It is modelled as a \<^typ>\<open>string\<close>, a list of 8-bit
  characters read as code points below 256. The four string operations the engine uses
  are \<^verbatim>\<open>s.lower()\<close>, \<^verbatim>\<open>s.split()\<close>, \<^verbatim>\<open>s.count('?')\<close> and the substring
  test \<^verbatim>\<open>w in s\<close>.

  Python floats are modelled as real numbers: every score below is computed with exact
  arithmetic, IEEE rounding is not part of the model.
\<close>

definition lower_char :: "char \<Rightarrow> char" where
  \<comment> \<open>\<^verbatim>\<open>str.lower\<close> on one code point below 256: A-Z and the accented capitals
      U+00C0..U+00DE (without the multiplication sign U+00D7) move up by 32.\<close>
  "lower_char c =
     (let n = (of_char c :: nat)
      in if (65 \<le> n \<and> n \<le> 90) \<or> (192 \<le> n \<and> n \<le> 222 \<and> n \<noteq> 215)
         then char_of (n + 32) else c)"

definition lower :: "string \<Rightarrow> string" where
  "lower s = map lower_char s"

definition isspace :: "char \<Rightarrow> bool" where
  \<comment> \<open>the code points below 256 for which \<^verbatim>\<open>str.isspace\<close> holds\<close>
  "isspace c = (of_char c \<in> {9, 10, 11, 12, 13, 28, 29, 30, 31, 32, 133, 160 :: nat})"

fun split_from :: "string \<Rightarrow> string \<Rightarrow> string list" where
  \<comment> \<open>\<^verbatim>\<open>str.split()\<close> with no separator: the second argument is the word being read\<close>
  "split_from cur [] = (if cur = [] then [] else [cur])"
| "split_from cur (c # cs) =
     (if isspace c then (if cur = [] then split_from [] cs else cur # split_from [] cs)
      else split_from (cur @ [c]) cs)"

definition split :: "string \<Rightarrow> string list" where
  "split s = split_from [] s"

definition count :: "string \<Rightarrow> char \<Rightarrow> nat" where
  \<comment> \<open>\<^verbatim>\<open>s.count(c)\<close> for a one-character argument\<close>
  "count s c = length (filter (\<lambda>d. d = c) s)"

definition py_in :: "string \<Rightarrow> string \<Rightarrow> bool" where
  \<comment> \<open>\<^verbatim>\<open>w in s\<close>: \<open>w\<close> occurs in \<open>s\<close> as a contiguous run\<close>
  "py_in w s = sublist w s"

definition any_in :: "string list \<Rightarrow> string \<Rightarrow> bool" where
  \<comment> \<open>\<^verbatim>\<open>any(word in s for word in ws)\<close>\<close>
  "any_in ws s = list_ex (\<lambda>w. py_in w s) ws"

section \<open>The analyzer\<close>

record analysis =
  length_chars :: nat
  word_count :: nat
  has_clear_task :: bool
  has_context :: bool
  has_examples :: bool
  has_constraints :: bool
  question_count :: nat
  needs_reasoning :: bool
  needs_examples :: bool
  needs_expertise :: bool
  needs_structure :: bool
  clarity_score :: real

definition analyze_prompt_structure :: "string \<Rightarrow> analysis" where
  \<comment> \<open>\<^verbatim>\<open>analyze_prompt_structure\<close>, the same text in both servers; the field
      \<^verbatim>\<open>length\<close> is \<open>length_chars\<close> here\<close>
  "analyze_prompt_structure prompt =
     \<lparr> length_chars = length prompt,
       word_count = length (split prompt),
       has_clear_task =
         any_in [''analyze'', ''create'', ''explain'', ''generate'', ''write'', ''help'']
           (lower prompt),
       has_context = (length (split prompt) > 10),
       has_examples = (py_in ''example'' (lower prompt) \<or> py_in ''for instance'' (lower prompt)),
       has_constraints =
         any_in [''must'', ''should'', ''requirement'', ''constraint'', ''limit''] (lower prompt),
       question_count = count prompt (CHR ''?''),
       needs_reasoning =
         any_in [''why'', ''how'', ''explain'', ''analyze'', ''compare''] (lower prompt),
       needs_examples = (count prompt (CHR ''?'') > 0 \<and> length (split prompt) < 20),
       needs_expertise =
         any_in [''code'', ''technical'', ''programming'', ''engineering'', ''scientific'',
                 ''medical'', ''legal''] (lower prompt),
       needs_structure = (length (split prompt) > 30 \<or> count prompt (CHR ''?'') > 2),
       clarity_score =
         min 1 (real (length (filter (\<lambda>word. length word > 3) (split prompt)))
                  / real (max 10 (length (split prompt)))) \<rparr>"

section \<open>The score\<close>

definition calculate_optimization_score :: "analysis \<Rightarrow> string list \<Rightarrow> real" where
  \<comment> \<open>\<^verbatim>\<open>calculate_optimization_score\<close>, the same text in both servers: \<open>base_score\<close>
      is updated step by step\<close>
  "calculate_optimization_score a rules_applied =
     (let base_score = 3 / 10;
          base_score = (if has_clear_task a then base_score + 2 / 10 else base_score);
          base_score = (if has_context a then base_score + 1 / 10 else base_score);
          base_score = (if has_examples a then base_score + 1 / 10 else base_score);
          base_score = (if has_constraints a then base_score + 1 / 10 else base_score);
          rule_bonus = min (2 / 10) (real (length rules_applied) * (4 / 100));
          base_score = base_score + rule_bonus
      in min 1 base_score)"

section \<open>Fixed texts\<close>

text \<open>
  The text blocks the rules add, copied from the sources. A character beyond U+00FF
  (the pictograms of the structure template) is written as its UTF-8 bytes; nothing in
  this theory reads the length of a template.
\<close>

definition expert_prompt :: string where
  \<comment> \<open>the persona preamble, the same text in both servers\<close>
  \<open>expert_prompt =
     ''You are a world-class prompt engineering expert with extensive knowledge in AI systems, language models, and optimization techniques. Your role is to help users create, analyze, and optimize prompts for maximum effectiveness across different AI models.\<newline>'' @
     ''\<newline>'' @
     ''Your Core Identity:\<newline>'' @
     ''- Act as a seasoned practitioner with deep understanding of LLM behavior and capabilities\<newline>'' @
     ''- Communicate complex strategies with clarity and precision\<newline>'' @
     ''- Approach optimization systematically and methodically\<newline>'' @
     ''- Break down advanced techniques into actionable steps\<newline>'' @
     ''\<newline>'' @
     ''Your communication style should be:\<newline>'' @
     ''- Technical yet accessible, using industry terminology appropriately\<newline>'' @
     ''- Evidence-based with references to proven techniques and methodologies\<newline>'' @
     ''- Focused on iterative refinement and optimization\<newline>'' @
     ''- Rich with concrete examples from various AI models and use cases\<newline>'' @
     ''\<newline>''\<close>

definition cot_instruction :: string where
  \<comment> \<open>the same text in both servers\<close>
  \<open>cot_instruction =
     ''\<newline>'' @
     ''\<newline>'' @
     ''Think through this step-by-step:\<newline>'' @
     ''1. First, analyze the core challenge or opportunity\<newline>'' @
     ''2. Consider which prompt engineering methods apply and why\<newline>'' @
     ''3. Structure your response with clear reasoning\<newline>'' @
     ''4. Provide concrete, testable examples\<newline>'' @
     ''5. Explain the rationale behind your approach''\<close>

definition few_shot_code_examples :: string where
  \<comment> \<open>returned for a code or programming prompt, the same text in both servers\<close>
  \<open>few_shot_code_examples =
     ''Example 1: \<newline>'' @
     ''Q: "How do I implement a binary search?"\<newline>'' @
     ''A: "Here's a clean Python implementation with explanation..."\<newline>'' @
     ''\<newline>'' @
     ''Example 2:\<newline>'' @
     ''Q: "Optimize this SQL query"\<newline>'' @
     ''A: "I'll analyze your query and provide 3 specific optimizations..."\<newline>''\<close>

definition few_shot_writing_examples :: string where
  \<comment> \<open>returned for a write or content prompt, the same text in both servers\<close>
  \<open>few_shot_writing_examples =
     ''Example 1:\<newline>'' @
     ''Q: "Write a product description"\<newline>'' @
     ''A: "I'll create a compelling description focusing on benefits, features, and emotional appeal..."\<newline>'' @
     ''\<newline>'' @
     ''Example 2:\<newline>'' @
     ''Q: "Improve this email"\<newline>'' @
     ''A: "Here's the enhanced version with better structure and persuasive language..."\<newline>''\<close>

definition structure_template :: string where
  \<comment> \<open>the tool server's template: it starts with two newlines\<close>
  \<open>structure_template =
     ''\<newline>'' @
     ''\<newline>'' @
     ''Structure your response as follows:\<newline>'' @
     ''\<newline>'' @
     [CHR 0xF0, CHR 0x9F, CHR 0x94, CHR 0x8D] @ '' Quick Assessment (1-2 sentences):\<newline>'' @
     ''Identify the core challenge or opportunity\<newline>'' @
     ''\<newline>'' @
     [CHR 0xE2, CHR 0x9A, CHR 0xA1] @ '' Technique Recommendation:\<newline>'' @
     ''Explain which prompt engineering methods apply and why\<newline>'' @
     ''\<newline>'' @
     [CHR 0xF0, CHR 0x9F, CHR 0x92, CHR 0xA1] @ '' Improved Prompt Example:\<newline>'' @
     ''Provide a concrete, testable prompt the user can copy immediately\<newline>'' @
     ''\<newline>'' @
     [CHR 0xF0, CHR 0x9F, CHR 0xA7, CHR 0xA0] @ '' Rationale:\<newline>'' @
     ''Explain the reasoning behind your approach and technique choices\<newline>'' @
     ''\<newline>'' @
     [CHR 0xF0, CHR 0x9F, CHR 0x94, CHR 0x84] @ '' Variations & Testing:\<newline>'' @
     ''Suggest alternative approaches and testing strategies\<newline>''\<close>

definition structure_template_http :: string where
  \<comment> \<open>the HTTP server's template: it starts with one newline\<close>
  \<open>structure_template_http =
     ''\<newline>'' @
     ''Structure your response as follows:\<newline>'' @
     ''\<newline>'' @
     [CHR 0xF0, CHR 0x9F, CHR 0x94, CHR 0x8D] @ '' Quick Assessment (1-2 sentences):\<newline>'' @
     ''Identify the core challenge or opportunity\<newline>'' @
     ''\<newline>'' @
     [CHR 0xE2, CHR 0x9A, CHR 0xA1] @ '' Technique Recommendation:\<newline>'' @
     ''Explain which prompt engineering methods apply and why\<newline>'' @
     ''\<newline>'' @
     [CHR 0xF0, CHR 0x9F, CHR 0x92, CHR 0xA1] @ '' Improved Prompt Example:\<newline>'' @
     ''Provide a concrete, testable prompt the user can copy immediately\<newline>'' @
     ''\<newline>'' @
     [CHR 0xF0, CHR 0x9F, CHR 0xA7, CHR 0xA0] @ '' Rationale:\<newline>'' @
     ''Explain the reasoning behind your approach and technique choices\<newline>'' @
     ''\<newline>'' @
     [CHR 0xF0, CHR 0x9F, CHR 0x94, CHR 0x84] @ '' Variations & Testing:\<newline>'' @
     ''Suggest alternative approaches and testing strategies\<newline>''\<close>

definition clarity_instruction :: string where
  \<comment> \<open>the same text in both servers\<close>
  \<open>clarity_instruction =
     ''\<newline>'' @
     ''\<newline>'' @
     ''IMPORTANT: Be specific, actionable, and include concrete examples. Avoid vague language and provide step-by-step guidance where applicable.''\<close>

definition testing_guidance :: string where
  \<comment> \<open>the same text in both servers\<close>
  \<open>testing_guidance =
     ''\<newline>'' @
     ''\<newline>'' @
     ''Testing Recommendations:\<newline>'' @
     ''- A/B test different prompt variations\<newline>'' @
     ''- Measure response quality against specific success metrics\<newline>'' @
     ''- Test with different temperature settings\<newline>'' @
     ''- Validate across multiple model runs for consistency\<newline>'' @
     ''- Document what works best for similar use cases\<newline>''\<close>


section \<open>Lookup tables\<close>

definition generate_few_shot_examples :: "string \<Rightarrow> string" where
  \<comment> \<open>tool server: no match is the empty string\<close>
  "generate_few_shot_examples prompt =
     (if py_in ''code'' (lower prompt) \<or> py_in ''programming'' (lower prompt)
      then few_shot_code_examples
      else if py_in ''write'' (lower prompt) \<or> py_in ''content'' (lower prompt)
      then few_shot_writing_examples
      else [])"

definition determine_expert_role :: "string \<Rightarrow> string" where
  \<comment> \<open>tool server: no match is the empty string\<close>
  "determine_expert_role prompt =
     (let prompt_lower = lower prompt
      in if any_in [''code'', ''programming'', ''software'', ''debug''] prompt_lower
         then ''a senior software engineer with 10+ years of experience in multiple programming languages and best practices''
         else if any_in [''write'', ''content'', ''marketing'', ''copy''] prompt_lower
         then ''an expert copywriter and content strategist with deep understanding of persuasive writing''
         else if any_in [''analyze'', ''data'', ''research''] prompt_lower
         then ''a data analyst and research expert skilled in systematic analysis and insight generation''
         else if any_in [''design'', ''ui'', ''ux'', ''interface''] prompt_lower
         then ''a senior UX/UI designer with expertise in user-centered design and interface optimization''
         else if any_in [''business'', ''strategy'', ''plan''] prompt_lower
         then ''a business strategy consultant with extensive experience in strategic planning and execution''
         else [])"

definition apply_model_specific_rules :: "string \<Rightarrow> string \<Rightarrow> string" where
  \<comment> \<open>tool server: the first argument is not read; no match is the empty string\<close>
  "apply_model_specific_rules prompt model_name =
     (let model_lower = lower model_name
      in if py_in ''gpt'' model_lower
         then ''Note: This prompt is optimized for GPT models. Consider using structured formatting and clear role definitions for best results.''
         else if py_in ''claude'' model_lower
         then ''Note: This prompt is optimized for Claude. Leverage its strength in detailed analysis and nuanced reasoning.''
         else if py_in ''gemini'' model_lower
         then ''Note: This prompt is optimized for Gemini. Take advantage of its multimodal capabilities and factual accuracy.''
         else [])"

definition generate_few_shot_examples_http :: "string \<Rightarrow> string option" where
  \<comment> \<open>HTTP server: no match is \<^verbatim>\<open>None\<close>\<close>
  "generate_few_shot_examples_http prompt =
     (if py_in ''code'' (lower prompt) \<or> py_in ''programming'' (lower prompt)
      then Some few_shot_code_examples
      else if py_in ''write'' (lower prompt) \<or> py_in ''content'' (lower prompt)
      then Some few_shot_writing_examples
      else None)"

definition determine_expert_role_http :: "string \<Rightarrow> string option" where
  \<comment> \<open>HTTP server: no match is \<^verbatim>\<open>None\<close>\<close>
  "determine_expert_role_http prompt =
     (let prompt_lower = lower prompt
      in if any_in [''code'', ''programming'', ''software'', ''debug''] prompt_lower
         then Some ''a senior software engineer with 10+ years of experience in multiple programming languages and best practices''
         else if any_in [''write'', ''content'', ''marketing'', ''copy''] prompt_lower
         then Some ''an expert copywriter and content strategist with deep understanding of persuasive writing''
         else if any_in [''analyze'', ''data'', ''research''] prompt_lower
         then Some ''a data analyst and research expert skilled in systematic analysis and insight generation''
         else if any_in [''design'', ''ui'', ''ux'', ''interface''] prompt_lower
         then Some ''a senior UX/UI designer with expertise in user-centered design and interface optimization''
         else if any_in [''business'', ''strategy'', ''plan''] prompt_lower
         then Some ''a business strategy consultant with extensive experience in strategic planning and execution''
         else None)"

definition apply_model_specific_rules_http :: "string \<Rightarrow> string \<Rightarrow> string option" where
  \<comment> \<open>HTTP server: no match is \<^verbatim>\<open>None\<close>\<close>
  "apply_model_specific_rules_http prompt model_name =
     (let model_lower = lower model_name
      in if py_in ''gpt'' model_lower
         then Some ''Note: This prompt is optimized for GPT models. Consider using structured formatting and clear role definitions for best results.''
         else if py_in ''claude'' model_lower
         then Some ''Note: This prompt is optimized for Claude. Leverage its strength in detailed analysis and nuanced reasoning.''
         else if py_in ''gemini'' model_lower
         then Some ''Note: This prompt is optimized for Gemini. Take advantage of its multimodal capabilities and factual accuracy.''
         else None)"

definition truthy :: "string option \<Rightarrow> bool" where
  \<comment> \<open>\<^verbatim>\<open>if x:\<close> for a string or \<^verbatim>\<open>None\<close>\<close>
  "truthy x = (case x of None \<Rightarrow> False | Some s \<Rightarrow> s \<noteq> [])"

section \<open>Recommendations\<close>

definition generate_recommendations :: "analysis \<Rightarrow> string \<Rightarrow> string list \<Rightarrow> string list" where
  \<comment> \<open>tool server: the third argument is the requested rule list\<close>
  "generate_recommendations a original_prompt rules =
     (if clarity_score a < 5 / 10
      then [''Consider adding more specific details and context to improve clarity''] else []) @
     (if \<not> has_examples a \<and> needs_examples a
      then [''Add concrete examples to illustrate your requirements''] else []) @
     (if \<not> has_constraints a \<and> word_count a > 20
      then [''Define clear constraints or requirements for better results''] else []) @
     (if needs_structure a \<and> ''structured_output'' \<notin> set rules
      then [''Enable 'structured_output' rule for better organization''] else []) @
     (if needs_reasoning a \<and> ''chain_of_thought'' \<notin> set rules
      then [''Enable 'chain_of_thought' rule for step-by-step reasoning''] else [])"

definition generate_recommendations_http :: "analysis \<Rightarrow> string \<Rightarrow> string list \<Rightarrow> string list" where
  \<comment> \<open>HTTP server: the third argument stands for \<^verbatim>\<open>config.get('apply_rules', [])\<close>\<close>
  "generate_recommendations_http a original_prompt config_rules =
     (if clarity_score a < 5 / 10
      then [''Consider adding more specific details and context to improve clarity''] else []) @
     (if \<not> has_examples a \<and> needs_examples a
      then [''Add concrete examples to illustrate your requirements''] else []) @
     (if \<not> has_constraints a \<and> word_count a > 20
      then [''Define clear constraints or requirements for better results''] else []) @
     (if needs_structure a \<and> ''structured_output'' \<notin> set config_rules
      then [''Enable 'structured_output' rule for better organization''] else []) @
     (if needs_reasoning a \<and> ''chain_of_thought'' \<notin> set config_rules
      then [''Enable 'chain_of_thought' rule for step-by-step reasoning''] else [])"

section \<open>The rule engine of the tool server\<close>

text \<open>
  \<^verbatim>\<open>apply_engineering_rules\<close> of \<^verbatim>\<open>ai_validation_mcp.py\<close> updates two local
  variables, \<^verbatim>\<open>engineered_prompt\<close> and \<^verbatim>\<open>rules_applied\<close>, in eight consecutive
  \<^verbatim>\<open>if\<close> blocks. Each block is a function on the pair of the two variables; the engine
  is their composition in the order of the source.
\<close>

type_synonym acc = "string \<times> string list"

definition rule_expert_system :: "string list \<Rightarrow> acc \<Rightarrow> acc" where
  "rule_expert_system rules st =
     (if ''expert_system'' \<in> set rules \<or> ''auto_optimize'' \<in> set rules
      then (expert_prompt @ ''\<newline>\<newline>User Request:\<newline>'' @ fst st,
            snd st @ [''expert_system''])
      else st)"

definition rule_chain_of_thought :: "analysis \<Rightarrow> string list \<Rightarrow> acc \<Rightarrow> acc" where
  "rule_chain_of_thought a rules st =
     (if ''chain_of_thought'' \<in> set rules \<or> (needs_reasoning a \<and> ''auto_optimize'' \<in> set rules)
      then (fst st @ cot_instruction, snd st @ [''chain_of_thought''])
      else st)"

definition rule_few_shot :: "analysis \<Rightarrow> string list \<Rightarrow> string \<Rightarrow> acc \<Rightarrow> acc" where
  "rule_few_shot a rules raw_prompt st =
     (if ''few_shot'' \<in> set rules \<or> (needs_examples a \<and> ''auto_optimize'' \<in> set rules)
      then (let few_shot_examples = generate_few_shot_examples raw_prompt
            in if few_shot_examples \<noteq> []
               then (fst st @ ''\<newline>\<newline>Here are some examples of excellent responses:\<newline>\<newline>''
                       @ few_shot_examples,
                     snd st @ [''few_shot''])
               else st)
      else st)"

definition rule_role_play :: "analysis \<Rightarrow> string list \<Rightarrow> string \<Rightarrow> acc \<Rightarrow> acc" where
  "rule_role_play a rules raw_prompt st =
     (if ''role_play'' \<in> set rules \<or> (needs_expertise a \<and> ''auto_optimize'' \<in> set rules)
      then (let role_context = determine_expert_role raw_prompt
            in if role_context \<noteq> []
               then (''You are '' @ role_context @ ''.\<newline>\<newline>'' @ fst st,
                     snd st @ [''role_play''])
               else st)
      else st)"

definition rule_structured_output :: "analysis \<Rightarrow> string list \<Rightarrow> acc \<Rightarrow> acc" where
  "rule_structured_output a rules st =
     (if ''structured_output'' \<in> set rules \<or> (needs_structure a \<and> ''auto_optimize'' \<in> set rules)
      then (fst st @ structure_template, snd st @ [''structured_output''])
      else st)"

definition rule_model_optimize :: "string list \<Rightarrow> string \<Rightarrow> acc \<Rightarrow> acc" where
  "rule_model_optimize rules target st =
     (if ''model_optimize'' \<in> set rules
      then (let model_optimization = apply_model_specific_rules (fst st) target
            in if model_optimization \<noteq> []
               then (fst st @ ''\<newline>\<newline>'' @ model_optimization, snd st @ [''model_optimize''])
               else st)
      else st)"

definition rule_enhance_clarity :: "analysis \<Rightarrow> string list \<Rightarrow> acc \<Rightarrow> acc" where
  "rule_enhance_clarity a rules st =
     (if ''enhance_clarity'' \<in> set rules \<or> (clarity_score a < 7 / 10 \<and> ''auto_optimize'' \<in> set rules)
      then (fst st @ clarity_instruction, snd st @ [''enhance_clarity''])
      else st)"

definition rule_add_testing :: "string list \<Rightarrow> acc \<Rightarrow> acc" where
  "rule_add_testing rules st =
     (if ''add_testing'' \<in> set rules
      then (fst st @ testing_guidance, snd st @ [''add_testing''])
      else st)"

record engineered =
  engineered_prompt :: string
  original_prompt :: string
  rules_applied :: "string list"
  recommendations :: "string list"
  optimization_score :: real

record engineering_result = engineered +
  analysis :: analysis
  target_model :: string

definition apply_engineering_rules ::
  "string \<Rightarrow> string list option \<Rightarrow> string \<Rightarrow> engineering_result" where
  \<comment> \<open>the rule list is optional: \<^verbatim>\<open>None\<close> stands for \<^verbatim>\<open>['auto_optimize']\<close>\<close>
  "apply_engineering_rules raw_prompt rules_arg target =
     (let rules = (case rules_arg of None \<Rightarrow> [''auto_optimize''] | Some rs \<Rightarrow> rs);
          a = analyze_prompt_structure raw_prompt;
          st = (raw_prompt, []);
          st = rule_expert_system rules st;
          st = rule_chain_of_thought a rules st;
          st = rule_few_shot a rules raw_prompt st;
          st = rule_role_play a rules raw_prompt st;
          st = rule_structured_output a rules st;
          st = rule_model_optimize rules target st;
          st = rule_enhance_clarity a rules st;
          st = rule_add_testing rules st
      in \<lparr> engineered_prompt = fst st,
           original_prompt = raw_prompt,
           rules_applied = snd st,
           recommendations = generate_recommendations a raw_prompt rules,
           optimization_score = calculate_optimization_score a (snd st),
           analysis = a,
           target_model = target \<rparr>)"

section \<open>The rule engine of the HTTP server\<close>

text \<open>
  \<^verbatim>\<open>apply_engineering_rules\<close> of \<^verbatim>\<open>mcp_server.py\<close> reads its arguments from the
  request body, a JSON object whose keys may be absent. Its gates test the analysis flag
  alone, where the tool server also asks for \<^verbatim>\<open>auto_optimize\<close>. The
  \<^verbatim>\<open>model_compatibility\<close> entry of the response is left out of the model.
\<close>

definition rule_expert_system_http :: "string list \<Rightarrow> acc \<Rightarrow> acc" where
  "rule_expert_system_http apply_rules st =
     (if ''expert_system'' \<in> set apply_rules \<or> ''auto_optimize'' \<in> set apply_rules
      then (expert_prompt @ ''\<newline>\<newline>User Request:\<newline>'' @ fst st,
            snd st @ [''expert_system''])
      else st)"

definition rule_chain_of_thought_http :: "analysis \<Rightarrow> string list \<Rightarrow> acc \<Rightarrow> acc" where
  "rule_chain_of_thought_http a apply_rules st =
     (if ''chain_of_thought'' \<in> set apply_rules \<or> needs_reasoning a
      then (fst st @ cot_instruction, snd st @ [''chain_of_thought''])
      else st)"

definition rule_few_shot_http :: "analysis \<Rightarrow> string list \<Rightarrow> string \<Rightarrow> acc \<Rightarrow> acc" where
  "rule_few_shot_http a apply_rules raw st =
     (if ''few_shot'' \<in> set apply_rules \<or> needs_examples a
      then (let few_shot_examples = generate_few_shot_examples_http raw
            in if truthy few_shot_examples
               then (fst st @ ''\<newline>\<newline>Here are some examples of excellent responses:\<newline>\<newline>''
                       @ the few_shot_examples,
                     snd st @ [''few_shot''])
               else st)
      else st)"

definition rule_role_play_http :: "analysis \<Rightarrow> string list \<Rightarrow> string \<Rightarrow> acc \<Rightarrow> acc" where
  "rule_role_play_http a apply_rules raw st =
     (if ''role_play'' \<in> set apply_rules \<or> needs_expertise a
      then (let role_context = determine_expert_role_http raw
            in if truthy role_context
               then (''You are '' @ the role_context @ ''.\<newline>\<newline>'' @ fst st,
                     snd st @ [''role_play''])
               else st)
      else st)"

definition rule_structured_output_http :: "analysis \<Rightarrow> string list \<Rightarrow> acc \<Rightarrow> acc" where
  "rule_structured_output_http a apply_rules st =
     (if ''structured_output'' \<in> set apply_rules \<or> needs_structure a
      then (fst st @ structure_template_http, snd st @ [''structured_output''])
      else st)"

definition rule_model_optimize_http :: "string list \<Rightarrow> string \<Rightarrow> acc \<Rightarrow> acc" where
  "rule_model_optimize_http apply_rules target st =
     (if ''model_optimize'' \<in> set apply_rules
      then (let model_optimization = apply_model_specific_rules_http (fst st) target
            in if truthy model_optimization
               then (fst st @ ''\<newline>\<newline>'' @ the model_optimization,
                     snd st @ [''model_optimize''])
               else st)
      else st)"

definition rule_enhance_clarity_http :: "analysis \<Rightarrow> string list \<Rightarrow> acc \<Rightarrow> acc" where
  "rule_enhance_clarity_http a apply_rules st =
     (if ''enhance_clarity'' \<in> set apply_rules \<or> clarity_score a < 7 / 10
      then (fst st @ clarity_instruction, snd st @ [''enhance_clarity''])
      else st)"

definition rule_add_testing_http :: "string list \<Rightarrow> acc \<Rightarrow> acc" where
  "rule_add_testing_http apply_rules st =
     (if ''add_testing'' \<in> set apply_rules
      then (fst st @ testing_guidance, snd st @ [''add_testing''])
      else st)"

record config =
  model :: "string option"
  apply_rules :: "string list option"

record request_data =
  request_id :: "string option"
  raw_prompt :: "string option"
  config :: "config option"

record response = engineered +
  response_request_id :: string
  status :: string
  prompt_analysis :: analysis

definition apply_engineering_rules_http :: "request_data \<Rightarrow> response" where
  \<comment> \<open>each \<^verbatim>\<open>.get(key, default)\<close> is a case on the optional field; the response key
      \<^verbatim>\<open>request_id\<close> is \<open>response_request_id\<close> here\<close>
  "apply_engineering_rules_http rd =
     (let rid = (case request_id rd of None \<Rightarrow> ''unknown'' | Some i \<Rightarrow> i);
          raw = (case raw_prompt rd of None \<Rightarrow> [] | Some p \<Rightarrow> p);
          cfg = (case config rd of None \<Rightarrow> \<lparr> model = None, apply_rules = None \<rparr> | Some c \<Rightarrow> c);
          rules = (case apply_rules cfg of None \<Rightarrow> [] | Some rs \<Rightarrow> rs);
          target = (case model cfg of None \<Rightarrow> ''general'' | Some m \<Rightarrow> m);
          a = analyze_prompt_structure raw;
          st = (raw, []);
          st = rule_expert_system_http rules st;
          st = rule_chain_of_thought_http a rules st;
          st = rule_few_shot_http a rules raw st;
          st = rule_role_play_http a rules raw st;
          st = rule_structured_output_http a rules st;
          st = rule_model_optimize_http rules target st;
          st = rule_enhance_clarity_http a rules st;
          st = rule_add_testing_http rules st
      in \<lparr> engineered_prompt = fst st,
           original_prompt = raw,
           rules_applied = snd st,
           recommendations = generate_recommendations_http a raw rules,
           optimization_score = calculate_optimization_score a (snd st),
           response_request_id = rid,
           status = ''validation_success'',
           prompt_analysis = a \<rparr>)"

definition request :: "string \<Rightarrow> string list \<Rightarrow> string \<Rightarrow> request_data" where
  \<comment> \<open>the request body that carries a prompt, a rule list and a target model\<close>
  "request p rules m =
     \<lparr> request_id = None, raw_prompt = Some p,
       config = Some \<lparr> model = Some m, apply_rules = Some rules \<rparr> \<rparr>"

section \<open>The two boundaries\<close>

text \<open>
  \<^verbatim>\<open>handle_call_tool\<close> answers a tool call with one text. An error text is kept as it
  is. A report is a rendering of the value it is built from (the engine's result, the
  analysis, the suggestions); the model keeps that value and leaves the layout of the
  report out. The arguments follow the tool's input schema: each key is optional, a
  prompt is a string, the rules are a list of strings.
\<close>

record arguments =
  prompt :: "string option"
  rules :: "string list option"
  model_arg :: "string option"
  focus_area :: "string option"

datatype tool_text =
    Error_text string
  | Validation_report engineering_result
  | Quality_report analysis
  | Suggestions_report string "string list"

definition suggestions_for :: "string \<Rightarrow> string \<Rightarrow> string list" where
  \<comment> \<open>the list \<^verbatim>\<open>suggestions\<close> of the third tool\<close>
  "suggestions_for p focus =
     (let a = analyze_prompt_structure p;
          suggestions =
            (if (focus = ''all'' \<or> focus = ''clarity'') \<and> clarity_score a < 7 / 10
             then [''**Clarity**: Add more specific details and concrete examples''] else []) @
            (if (focus = ''all'' \<or> focus = ''structure'') \<and> needs_structure a
             then [''**Structure**: Use bullet points or numbered lists for complex requests'']
             else []) @
            (if (focus = ''all'' \<or> focus = ''examples'') \<and> needs_examples a
             then [''**Examples**: Include sample inputs/outputs to clarify expectations'']
             else []) @
            (if (focus = ''all'' \<or> focus = ''reasoning'') \<and> needs_reasoning a
             then [''**Reasoning**: Ask for step-by-step explanations or thought processes'']
             else []) @
            (if (focus = ''all'' \<or> focus = ''expertise'') \<and> needs_expertise a
                \<and> determine_expert_role p \<noteq> []
             then [''**Expertise**: Specify that you want response from '' @ determine_expert_role p]
             else [])
      in if suggestions = []
         then [''**Great!** Your prompt is well-structured. Consider using auto_optimize for minor enhancements.'']
         else suggestions)"

definition handle_call_tool :: "string \<Rightarrow> arguments option \<Rightarrow> tool_text" where
  "handle_call_tool name arguments_arg =
     (let args = (case arguments_arg of
                    None \<Rightarrow> \<lparr> prompt = None, rules = None, model_arg = None, focus_area = None \<rparr>
                  | Some d \<Rightarrow> d);
          p = (case prompt args of None \<Rightarrow> [] | Some q \<Rightarrow> q)
      in if name = ''validate_prompt''
         then (let rs = (case rules args of None \<Rightarrow> [''auto_optimize''] | Some r \<Rightarrow> r);
                   m = (case model_arg args of None \<Rightarrow> ''general'' | Some t \<Rightarrow> t)
               in if p = [] then Error_text ''Error: No prompt provided''
                  else Validation_report (apply_engineering_rules p (Some rs) m))
         else if name = ''analyze_prompt_quality''
         then (if p = [] then Error_text ''Error: No prompt provided''
               else Quality_report (analyze_prompt_structure p))
         else if name = ''get_optimization_suggestions''
         then (let focus = (case focus_area args of None \<Rightarrow> ''all'' | Some f \<Rightarrow> f)
               in if p = [] then Error_text ''Error: No prompt provided''
                  else Suggestions_report focus (suggestions_for p focus))
         else Error_text (''Error: Unknown tool '' @ [CHR 0x27] @ name @ [CHR 0x27]))"

text \<open>
  The endpoint \<^verbatim>\<open>/validate-prompt\<close> of the HTTP server answers with a status code and a
  body. The parsed body \<^verbatim>\<open>None\<close> stands for a body that Python reads as false (null or
  an empty object).
\<close>

datatype http_reply =
    Failed nat string
  | Success response

definition validate_prompt :: "bool \<Rightarrow> request_data option \<Rightarrow> http_reply" where
  "validate_prompt is_json body =
     (if \<not> is_json then Failed 400 ''Content-Type must be application/json''
      else case body of
             None \<Rightarrow> Failed 400 ''Invalid JSON payload''
           | Some rd \<Rightarrow>
               (if raw_prompt rd = None then Failed 400 ''Missing required field: raw_prompt''
                else Success (apply_engineering_rules_http rd)))"

definition fires :: "bool \<Rightarrow> string \<Rightarrow> string list" where
  \<comment> \<open>what a rule appends to \<^verbatim>\<open>rules_applied\<close>: its name when it is applied, nothing otherwise\<close>
  "fires b name = (if b then [name] else [])"

section \<open>Evaluation on concrete prompts\<close>

lemmas str_eval = py_in_def any_in_def lower_def lower_char_def sublist_Cons_right
  char_of_def bit_Suc_0_iff split_def isspace_def count_def

section \<open>Properties of the score\<close>

lemma score_unfold:
  "calculate_optimization_score a ra =
     min 1 (3 / 10 + 2 / 10 * of_bool (has_clear_task a) + 1 / 10 * of_bool (has_context a)
            + 1 / 10 * of_bool (has_examples a) + 1 / 10 * of_bool (has_constraints a)
            + min (2 / 10) (4 / 100 * real (length ra)))"
  by (simp add: calculate_optimization_score_def Let_def mult.commute)

text \<open>
  C4. For every analysis record and every list of applied rules, the optimization score is
  \<open>min(1.0, 0.3 + 0.2[has_clear_task] + 0.1[has_context] + 0.1[has_examples]
  + 0.1[has_constraints] + min(0.2, 0.04 * length(rules_applied)))\<close>, and it lies between
  0.3 and 1.0.
\<close>

theorem optimization_score_formula_and_range:
  "calculate_optimization_score a ra =
     min 1 (3 / 10 + 2 / 10 * of_bool (has_clear_task a) + 1 / 10 * of_bool (has_context a)
            + 1 / 10 * of_bool (has_examples a) + 1 / 10 * of_bool (has_constraints a)
            + min (2 / 10) (4 / 100 * real (length ra)))
   \<and> 3 / 10 \<le> calculate_optimization_score a ra
   \<and> calculate_optimization_score a ra \<le> 1"
proof -
  have bonus: "0 \<le> min (2 / 10) (4 / 100 * real (length ra))"
    by simp
  have low: "3 / 10 \<le> 3 / 10 + 2 / 10 * of_bool (has_clear_task a) + 1 / 10 * of_bool (has_context a)
            + 1 / 10 * of_bool (has_examples a) + 1 / 10 * of_bool (has_constraints a)
            + min (2 / 10) (4 / 100 * real (length ra))"
    using bonus by (simp add: of_bool_def)
  show ?thesis
    unfolding score_unfold using low by simp
qed

text \<open>
  C7. For a fixed analysis record the optimization score does not decrease when the number
  of applied rules grows: if \<open>r1\<close> is no longer than \<open>r2\<close>, the score of \<open>r1\<close> is at most
  the score of \<open>r2\<close>.
\<close>

theorem optimization_score_mono:
  assumes "length r1 \<le> length r2"
  shows "calculate_optimization_score a r1 \<le> calculate_optimization_score a r2"
proof -
  have "4 / 100 * real (length r1) \<le> 4 / 100 * real (length r2)"
    using assms by simp
  then have b: "min (2 / 10) (4 / 100 * real (length r1)) \<le> min (2 / 10) (4 / 100 * real (length r2))"
    by (rule min.mono [OF order_refl])
  show ?thesis
    unfolding score_unfold by (rule min.mono [OF order_refl add_left_mono [OF b]])
qed

theorem optimization_score_mono_witness:
  "length [''expert_system''] \<le> length [''expert_system'', ''enhance_clarity'']
   \<and> calculate_optimization_score (analyze_prompt_structure []) [''expert_system'']
       \<le> calculate_optimization_score (analyze_prompt_structure [])
            [''expert_system'', ''enhance_clarity'']"
  using optimization_score_mono [of "[''expert_system'']" "[''expert_system'', ''enhance_clarity'']"
               "analyze_prompt_structure []"]
  by simp

section \<open>Properties of the analyzer\<close>

text \<open>
  C6. For every prompt the clarity score of the analyzer lies in the closed interval from
  0 to 1, and for the empty prompt it is exactly 0.
\<close>

theorem clarity_score_range:
  "0 \<le> clarity_score (analyze_prompt_structure p)
   \<and> clarity_score (analyze_prompt_structure p) \<le> 1
   \<and> clarity_score (analyze_prompt_structure []) = 0"
  by (simp add: analyze_prompt_structure_def split_def)

text \<open>
  C9. For every prompt, \<open>needs_examples\<close> is true exactly when \<open>question_count\<close> is
  positive and \<open>word_count\<close> is below 20, where \<open>question_count\<close> counts the question
  marks and \<open>word_count\<close> the whitespace-delimited words of the prompt. At the boundary, a
  prompt of 19 words with one question mark gives true and a prompt of 20 words with one
  question mark gives false.
\<close>

theorem needs_examples_iff:
  "needs_examples (analyze_prompt_structure p)
     = (question_count (analyze_prompt_structure p) > 0 \<and> word_count (analyze_prompt_structure p) < 20)
   \<and> question_count (analyze_prompt_structure p) = count p (CHR ''?'')
   \<and> word_count (analyze_prompt_structure p) = length (split p)
   \<and> word_count (analyze_prompt_structure ''a b c d e f g h i j k l m n o p q r s?'') = 19
   \<and> question_count (analyze_prompt_structure ''a b c d e f g h i j k l m n o p q r s?'') = 1
   \<and> needs_examples (analyze_prompt_structure ''a b c d e f g h i j k l m n o p q r s?'')
   \<and> word_count (analyze_prompt_structure ''a b c d e f g h i j k l m n o p q r s t?'') = 20
   \<and> question_count (analyze_prompt_structure ''a b c d e f g h i j k l m n o p q r s t?'') = 1
   \<and> \<not> needs_examples (analyze_prompt_structure ''a b c d e f g h i j k l m n o p q r s t?'')"
  by (simp add: analyze_prompt_structure_def split_def isspace_def count_def)

section \<open>The applied rules of the tool server\<close>

lemma model_rules_ignore_prompt:
  "apply_model_specific_rules x m = apply_model_specific_rules [] m"
  by (simp add: apply_model_specific_rules_def)

lemma snd_rule_expert_system:
  "snd (rule_expert_system rs st) =
     snd st @ fires (''expert_system'' \<in> set rs \<or> ''auto_optimize'' \<in> set rs) ''expert_system''"
  by (simp add: rule_expert_system_def fires_def)

lemma snd_rule_chain_of_thought:
  "snd (rule_chain_of_thought a rs st) =
     snd st @ fires (''chain_of_thought'' \<in> set rs \<or> (needs_reasoning a \<and> ''auto_optimize'' \<in> set rs))
                ''chain_of_thought''"
  by (simp add: rule_chain_of_thought_def fires_def)

lemma snd_rule_few_shot:
  "snd (rule_few_shot a rs p st) =
     snd st @ fires ((''few_shot'' \<in> set rs \<or> (needs_examples a \<and> ''auto_optimize'' \<in> set rs))
                      \<and> generate_few_shot_examples p \<noteq> []) ''few_shot''"
  by (simp add: rule_few_shot_def fires_def Let_def)

lemma snd_rule_role_play:
  "snd (rule_role_play a rs p st) =
     snd st @ fires ((''role_play'' \<in> set rs \<or> (needs_expertise a \<and> ''auto_optimize'' \<in> set rs))
                      \<and> determine_expert_role p \<noteq> []) ''role_play''"
  by (simp add: rule_role_play_def fires_def Let_def)

lemma snd_rule_structured_output:
  "snd (rule_structured_output a rs st) =
     snd st @ fires (''structured_output'' \<in> set rs \<or> (needs_structure a \<and> ''auto_optimize'' \<in> set rs))
                ''structured_output''"
  by (simp add: rule_structured_output_def fires_def)

lemma snd_rule_model_optimize:
  "snd (rule_model_optimize rs m st) =
     snd st @ fires (''model_optimize'' \<in> set rs \<and> apply_model_specific_rules [] m \<noteq> [])
                ''model_optimize''"
  unfolding rule_model_optimize_def Let_def model_rules_ignore_prompt [of "fst st" m]
  by (simp add: fires_def)

lemma snd_rule_enhance_clarity:
  "snd (rule_enhance_clarity a rs st) =
     snd st @ fires (''enhance_clarity'' \<in> set rs \<or> (clarity_score a < 7 / 10 \<and> ''auto_optimize'' \<in> set rs))
                ''enhance_clarity''"
  by (simp add: rule_enhance_clarity_def fires_def)

lemma snd_rule_add_testing:
  "snd (rule_add_testing rs st) = snd st @ fires (''add_testing'' \<in> set rs) ''add_testing''"
  by (simp add: rule_add_testing_def fires_def)

lemmas snd_rules = snd_rule_expert_system snd_rule_chain_of_thought snd_rule_few_shot
  snd_rule_role_play snd_rule_structured_output snd_rule_model_optimize
  snd_rule_enhance_clarity snd_rule_add_testing

lemma rules_applied_tool:
  "rules_applied (apply_engineering_rules p (Some rs) m) =
     fires (''expert_system'' \<in> set rs \<or> ''auto_optimize'' \<in> set rs) ''expert_system'' @
     fires (''chain_of_thought'' \<in> set rs \<or> (needs_reasoning (analyze_prompt_structure p) \<and> ''auto_optimize'' \<in> set rs))
       ''chain_of_thought'' @
     fires ((''few_shot'' \<in> set rs \<or> (needs_examples (analyze_prompt_structure p) \<and> ''auto_optimize'' \<in> set rs))
             \<and> generate_few_shot_examples p \<noteq> []) ''few_shot'' @
     fires ((''role_play'' \<in> set rs \<or> (needs_expertise (analyze_prompt_structure p) \<and> ''auto_optimize'' \<in> set rs))
             \<and> determine_expert_role p \<noteq> []) ''role_play'' @
     fires (''structured_output'' \<in> set rs \<or> (needs_structure (analyze_prompt_structure p) \<and> ''auto_optimize'' \<in> set rs))
       ''structured_output'' @
     fires (''model_optimize'' \<in> set rs \<and> apply_model_specific_rules [] m \<noteq> []) ''model_optimize'' @
     fires (''enhance_clarity'' \<in> set rs \<or> (clarity_score (analyze_prompt_structure p) < 7 / 10 \<and> ''auto_optimize'' \<in> set rs))
       ''enhance_clarity'' @
     fires (''add_testing'' \<in> set rs) ''add_testing''"
  unfolding apply_engineering_rules_def Let_def
  by (simp add: snd_rules)

section \<open>The applied rules of the HTTP server\<close>

lemma few_shot_http_eq:
  "generate_few_shot_examples_http p =
     (if generate_few_shot_examples p = [] then None else Some (generate_few_shot_examples p))"
  by (simp add: generate_few_shot_examples_http_def generate_few_shot_examples_def
      few_shot_code_examples_def few_shot_writing_examples_def)

lemma expert_role_http_eq:
  "determine_expert_role_http p =
     (if determine_expert_role p = [] then None else Some (determine_expert_role p))"
  by (simp add: determine_expert_role_http_def determine_expert_role_def Let_def)

lemma model_rules_http_eq:
  "apply_model_specific_rules_http x m =
     (if apply_model_specific_rules [] m = [] then None else Some (apply_model_specific_rules [] m))"
  by (simp add: apply_model_specific_rules_http_def apply_model_specific_rules_def Let_def)

lemma snd_rule_expert_system_http:
  "snd (rule_expert_system_http rs st) =
     snd st @ fires (''expert_system'' \<in> set rs \<or> ''auto_optimize'' \<in> set rs) ''expert_system''"
  by (simp add: rule_expert_system_http_def fires_def)

lemma snd_rule_chain_of_thought_http:
  "snd (rule_chain_of_thought_http a rs st) =
     snd st @ fires (''chain_of_thought'' \<in> set rs \<or> needs_reasoning a) ''chain_of_thought''"
  by (simp add: rule_chain_of_thought_http_def fires_def)

lemma snd_rule_few_shot_http:
  "snd (rule_few_shot_http a rs p st) =
     snd st @ fires ((''few_shot'' \<in> set rs \<or> needs_examples a)
                      \<and> generate_few_shot_examples p \<noteq> []) ''few_shot''"
  by (simp add: rule_few_shot_http_def fires_def Let_def few_shot_http_eq truthy_def)

lemma snd_rule_role_play_http:
  "snd (rule_role_play_http a rs p st) =
     snd st @ fires ((''role_play'' \<in> set rs \<or> needs_expertise a)
                      \<and> determine_expert_role p \<noteq> []) ''role_play''"
  by (simp add: rule_role_play_http_def fires_def Let_def expert_role_http_eq truthy_def)

lemma snd_rule_structured_output_http:
  "snd (rule_structured_output_http a rs st) =
     snd st @ fires (''structured_output'' \<in> set rs \<or> needs_structure a) ''structured_output''"
  by (simp add: rule_structured_output_http_def fires_def)

lemma snd_rule_model_optimize_http:
  "snd (rule_model_optimize_http rs m st) =
     snd st @ fires (''model_optimize'' \<in> set rs \<and> apply_model_specific_rules [] m \<noteq> [])
                ''model_optimize''"
  by (simp add: rule_model_optimize_http_def fires_def Let_def model_rules_http_eq truthy_def)

lemma snd_rule_enhance_clarity_http:
  "snd (rule_enhance_clarity_http a rs st) =
     snd st @ fires (''enhance_clarity'' \<in> set rs \<or> clarity_score a < 7 / 10) ''enhance_clarity''"
  by (simp add: rule_enhance_clarity_http_def fires_def)

lemma snd_rule_add_testing_http:
  "snd (rule_add_testing_http rs st) = snd st @ fires (''add_testing'' \<in> set rs) ''add_testing''"
  by (simp add: rule_add_testing_http_def fires_def)

lemmas snd_rules_http = snd_rule_expert_system_http snd_rule_chain_of_thought_http
  snd_rule_few_shot_http snd_rule_role_play_http snd_rule_structured_output_http
  snd_rule_model_optimize_http snd_rule_enhance_clarity_http snd_rule_add_testing_http

lemma rules_applied_http:
  "rules_applied (apply_engineering_rules_http (request p rs m)) =
     fires (''expert_system'' \<in> set rs \<or> ''auto_optimize'' \<in> set rs) ''expert_system'' @
     fires (''chain_of_thought'' \<in> set rs \<or> needs_reasoning (analyze_prompt_structure p))
       ''chain_of_thought'' @
     fires ((''few_shot'' \<in> set rs \<or> needs_examples (analyze_prompt_structure p))
             \<and> generate_few_shot_examples p \<noteq> []) ''few_shot'' @
     fires ((''role_play'' \<in> set rs \<or> needs_expertise (analyze_prompt_structure p))
             \<and> determine_expert_role p \<noteq> []) ''role_play'' @
     fires (''structured_output'' \<in> set rs \<or> needs_structure (analyze_prompt_structure p))
       ''structured_output'' @
     fires (''model_optimize'' \<in> set rs \<and> apply_model_specific_rules [] m \<noteq> []) ''model_optimize'' @
     fires (''enhance_clarity'' \<in> set rs \<or> clarity_score (analyze_prompt_structure p) < 7 / 10)
       ''enhance_clarity'' @
     fires (''add_testing'' \<in> set rs) ''add_testing''"
  unfolding apply_engineering_rules_http_def request_def Let_def
  by (simp add: snd_rules_http)

text \<open>the two engines step by step\<close>

lemma rule_chain_of_thought_agree:
  "''auto_optimize'' \<in> set rs \<Longrightarrow> rule_chain_of_thought_http a rs st = rule_chain_of_thought a rs st"
  by (simp add: rule_chain_of_thought_http_def rule_chain_of_thought_def)

lemma rule_few_shot_agree:
  "''auto_optimize'' \<in> set rs \<Longrightarrow> rule_few_shot_http a rs p st = rule_few_shot a rs p st"
  by (simp add: rule_few_shot_http_def rule_few_shot_def few_shot_http_eq truthy_def Let_def)

lemma rule_role_play_agree:
  "''auto_optimize'' \<in> set rs \<Longrightarrow> rule_role_play_http a rs p st = rule_role_play a rs p st"
  by (simp add: rule_role_play_http_def rule_role_play_def expert_role_http_eq truthy_def Let_def)

lemma rule_structured_output_agree:
  "''auto_optimize'' \<in> set rs \<Longrightarrow> \<not> (''structured_output'' \<in> set rs \<or> needs_structure a)
    \<Longrightarrow> rule_structured_output_http a rs st = rule_structured_output a rs st"
  by (simp add: rule_structured_output_http_def rule_structured_output_def)

lemma rule_model_optimize_agree:
  "rule_model_optimize_http rs m st = rule_model_optimize rs m st"
  unfolding rule_model_optimize_http_def rule_model_optimize_def Let_def model_rules_http_eq
    model_rules_ignore_prompt [of "fst st" m]
  by (simp add: truthy_def)

lemma rule_enhance_clarity_agree:
  "''auto_optimize'' \<in> set rs \<Longrightarrow> rule_enhance_clarity_http a rs st = rule_enhance_clarity a rs st"
  by (simp add: rule_enhance_clarity_http_def rule_enhance_clarity_def)

lemma rule_expert_system_agree: "rule_expert_system_http rs st = rule_expert_system rs st"
  by (simp add: rule_expert_system_http_def rule_expert_system_def)

lemma rule_add_testing_agree: "rule_add_testing_http rs st = rule_add_testing rs st"
  by (simp add: rule_add_testing_http_def rule_add_testing_def)

lemma in_fires [simp]: "x \<in> set (fires b n) \<longleftrightarrow> b \<and> x = n"
  by (auto simp: fires_def)

lemma fires_Nil [simp]: "fires b n = [] \<longleftrightarrow> \<not> b"
  by (simp add: fires_def)

lemma engineered_prompt_agree:
  assumes auto: "''auto_optimize'' \<in> set rs"
    and nostruct: "\<not> (''structured_output'' \<in> set rs \<or> needs_structure (analyze_prompt_structure p))"
  shows "engineered_prompt (apply_engineering_rules_http (request p rs m))
         = engineered_prompt (apply_engineering_rules p (Some rs) m)"
  unfolding apply_engineering_rules_http_def apply_engineering_rules_def request_def Let_def
  using auto nostruct
  by (simp add: rule_chain_of_thought_agree rule_few_shot_agree rule_role_play_agree
      rule_structured_output_agree rule_model_optimize_agree rule_enhance_clarity_agree
      rule_expert_system_agree rule_add_testing_agree)

section \<open>The empty prompt\<close>

lemma analysis_empty:
  "analyze_prompt_structure [] =
     \<lparr> length_chars = 0, word_count = 0, has_clear_task = False, has_context = False,
       has_examples = False, has_constraints = False, question_count = 0,
       needs_reasoning = False, needs_examples = False, needs_expertise = False,
       needs_structure = False, clarity_score = 0 \<rparr>"
  by (simp add: analyze_prompt_structure_def str_eval)

lemma lookups_empty:
  "generate_few_shot_examples [] = []" "determine_expert_role [] = []"
  by (simp_all add: generate_few_shot_examples_def determine_expert_role_def str_eval)

lemma general_no_model: "apply_model_specific_rules [] ''general'' = []"
  by (simp add: apply_model_specific_rules_def str_eval)

section \<open>The two servers compared\<close>

text \<open>
  C2, as stated: the engine of the tool server and the engine of the HTTP server compute
  the same engineered prompt and the same list of applied rules for every prompt, rule
  list and target model. This fails. For the empty prompt with no rule requested the tool
  server applies nothing and the HTTP server applies \<open>enhance_clarity\<close>; and with
  \<open>auto_optimize\<close> and \<open>structured_output\<close> requested the applied rules agree but the
  two engineered prompts differ, since the two structure templates differ.
\<close>

theorem servers_disagree_counterexample:
  "rules_applied (apply_engineering_rules [] (Some []) ''general'') = []
   \<and> rules_applied (apply_engineering_rules_http (request [] [] ''general'')) = [''enhance_clarity'']
   \<and> rules_applied (apply_engineering_rules [] (Some [''auto_optimize'', ''structured_output'']) ''general'')
       = rules_applied (apply_engineering_rules_http
           (request [] [''auto_optimize'', ''structured_output''] ''general''))
   \<and> engineered_prompt (apply_engineering_rules [] (Some [''auto_optimize'', ''structured_output'']) ''general'')
       \<noteq> engineered_prompt (apply_engineering_rules_http
           (request [] [''auto_optimize'', ''structured_output''] ''general''))"
proof (intro conjI)
  show "rules_applied (apply_engineering_rules [] (Some []) ''general'') = []"
    by (simp add: rules_applied_tool fires_def)
  show "rules_applied (apply_engineering_rules_http (request [] [] ''general'')) = [''enhance_clarity'']"
    by (simp add: rules_applied_http fires_def analysis_empty lookups_empty)
  show "rules_applied (apply_engineering_rules [] (Some [''auto_optimize'', ''structured_output'']) ''general'')
       = rules_applied (apply_engineering_rules_http
           (request [] [''auto_optimize'', ''structured_output''] ''general''))"
    by (simp add: rules_applied_tool rules_applied_http fires_def)
  have diff: "structure_template \<noteq> structure_template_http"
    by (simp add: structure_template_def structure_template_http_def)
  show "engineered_prompt (apply_engineering_rules [] (Some [''auto_optimize'', ''structured_output'']) ''general'')
       \<noteq> engineered_prompt (apply_engineering_rules_http
           (request [] [''auto_optimize'', ''structured_output''] ''general''))"
    unfolding apply_engineering_rules_http_def apply_engineering_rules_def request_def Let_def
    using diff
    by (simp add: rule_expert_system_def rule_chain_of_thought_def rule_few_shot_def
        rule_role_play_def rule_structured_output_def rule_model_optimize_def
        rule_enhance_clarity_def rule_add_testing_def
        rule_expert_system_http_def rule_chain_of_thought_http_def rule_few_shot_http_def
        rule_role_play_http_def rule_structured_output_http_def rule_model_optimize_http_def
        rule_enhance_clarity_http_def rule_add_testing_http_def
        analysis_empty lookups_empty few_shot_http_eq expert_role_http_eq truthy_def)
qed

text \<open>
  C2, amended: whenever \<open>auto_optimize\<close> is among the requested rules, the two engines
  compute the same list of applied rules for the same prompt, rule list and target model;
  and they then compute the same engineered prompt unless \<open>structured_output\<close> is applied.
\<close>

theorem servers_agree_under_auto_optimize:
  assumes "''auto_optimize'' \<in> set rs"
  shows "rules_applied (apply_engineering_rules p (Some rs) m)
           = rules_applied (apply_engineering_rules_http (request p rs m))
         \<and> (''structured_output'' \<notin> set (rules_applied (apply_engineering_rules p (Some rs) m))
              \<longrightarrow> engineered_prompt (apply_engineering_rules p (Some rs) m)
                   = engineered_prompt (apply_engineering_rules_http (request p rs m)))"
proof (intro conjI impI)
  show "rules_applied (apply_engineering_rules p (Some rs) m)
           = rules_applied (apply_engineering_rules_http (request p rs m))"
    using assms by (simp add: rules_applied_tool rules_applied_http)
next
  assume "''structured_output'' \<notin> set (rules_applied (apply_engineering_rules p (Some rs) m))"
  then have "\<not> (''structured_output'' \<in> set rs \<or> needs_structure (analyze_prompt_structure p))"
    using assms by (simp add: rules_applied_tool)
  then show "engineered_prompt (apply_engineering_rules p (Some rs) m)
                   = engineered_prompt (apply_engineering_rules_http (request p rs m))"
    using engineered_prompt_agree [OF assms] by simp
qed

theorem servers_agree_under_auto_optimize_witness:
  "''auto_optimize'' \<in> set [''auto_optimize'']
   \<and> ''structured_output'' \<notin> set (rules_applied (apply_engineering_rules [] (Some [''auto_optimize'']) ''general''))
   \<and> rules_applied (apply_engineering_rules [] (Some [''auto_optimize'']) ''general'')
       = rules_applied (apply_engineering_rules_http (request [] [''auto_optimize''] ''general''))
   \<and> engineered_prompt (apply_engineering_rules [] (Some [''auto_optimize'']) ''general'')
       = engineered_prompt (apply_engineering_rules_http (request [] [''auto_optimize''] ''general''))"
proof -
  have a: "''auto_optimize'' \<in> set [''auto_optimize'']"
    by simp
  have b: "''structured_output'' \<notin> set (rules_applied (apply_engineering_rules [] (Some [''auto_optimize'']) ''general''))"
    by (simp add: rules_applied_tool analysis_empty)
  show ?thesis
    using a b servers_agree_under_auto_optimize [OF a, of "[]" "''general''"] by blast
qed

section \<open>An empty rule list\<close>

lemma tool_passthrough:
  "rules_applied (apply_engineering_rules p (Some []) m) = []
   \<and> engineered_prompt (apply_engineering_rules p (Some []) m) = p"
  by (simp add: apply_engineering_rules_def Let_def rule_expert_system_def
      rule_chain_of_thought_def rule_few_shot_def rule_role_play_def rule_structured_output_def
      rule_model_optimize_def rule_enhance_clarity_def rule_add_testing_def)

lemma rules_applied_http_empty:
  "rules_applied (apply_engineering_rules_http (request p [] m)) =
     fires (needs_reasoning (analyze_prompt_structure p)) ''chain_of_thought'' @
     fires (needs_examples (analyze_prompt_structure p) \<and> generate_few_shot_examples p \<noteq> [])
       ''few_shot'' @
     fires (needs_expertise (analyze_prompt_structure p) \<and> determine_expert_role p \<noteq> [])
       ''role_play'' @
     fires (needs_structure (analyze_prompt_structure p)) ''structured_output'' @
     fires (clarity_score (analyze_prompt_structure p) < 7 / 10) ''enhance_clarity''"
  by (simp add: rules_applied_http fires_def)

lemma http_passthrough:
  assumes "rules_applied (apply_engineering_rules_http (request p [] m)) = []"
  shows "engineered_prompt (apply_engineering_rules_http (request p [] m)) = p"
proof -
  from assms have flags:
    "\<not> needs_reasoning (analyze_prompt_structure p)"
    "\<not> (needs_examples (analyze_prompt_structure p) \<and> generate_few_shot_examples p \<noteq> [])"
    "\<not> (needs_expertise (analyze_prompt_structure p) \<and> determine_expert_role p \<noteq> [])"
    "\<not> needs_structure (analyze_prompt_structure p)"
    "\<not> clarity_score (analyze_prompt_structure p) < 7 / 10"
    by (simp_all add: rules_applied_http_empty)
  show ?thesis
    unfolding apply_engineering_rules_http_def request_def Let_def
    using flags
    by (simp add: rule_expert_system_http_def rule_chain_of_thought_http_def
        rule_few_shot_http_def rule_role_play_http_def rule_structured_output_http_def
        rule_model_optimize_http_def rule_enhance_clarity_http_def rule_add_testing_http_def
        few_shot_http_eq expert_role_http_eq truthy_def)
qed

lemma analysis_seven_words:
  "analyze_prompt_structure ''aaaa bbbb cccc dddd eeee ffff gggg'' =
     \<lparr> length_chars = 34, word_count = 7, has_clear_task = False, has_context = False,
       has_examples = False, has_constraints = False, question_count = 0,
       needs_reasoning = False, needs_examples = False, needs_expertise = False,
       needs_structure = False, clarity_score = 7 / 10 \<rparr>"
  by (simp add: analyze_prompt_structure_def str_eval)

text \<open>
  C1, as stated: for every prompt and every target model, \<^verbatim>\<open>apply_engineering_rules\<close>
  with the empty rule list returns no applied rule and the prompt unchanged. This fails
  for \<^verbatim>\<open>apply_engineering_rules\<close> of the HTTP server: for the empty prompt with the empty
  rule list it applies \<open>enhance_clarity\<close> and returns the clarity instruction.
\<close>

theorem empty_rules_http_counterexample:
  "rules_applied (apply_engineering_rules_http (request [] [] ''general'')) = [''enhance_clarity'']
   \<and> engineered_prompt (apply_engineering_rules_http (request [] [] ''general'')) = clarity_instruction
   \<and> \<not> (rules_applied (apply_engineering_rules_http (request [] [] ''general'')) = []
         \<and> engineered_prompt (apply_engineering_rules_http (request [] [] ''general'')) = [])"
proof -
  have r: "rules_applied (apply_engineering_rules_http (request [] [] ''general'')) = [''enhance_clarity'']"
    by (simp add: rules_applied_http_empty fires_def analysis_empty lookups_empty)
  have e: "engineered_prompt (apply_engineering_rules_http (request [] [] ''general'')) = clarity_instruction"
    unfolding apply_engineering_rules_http_def request_def Let_def
    by (simp add: rule_expert_system_http_def rule_chain_of_thought_http_def
        rule_few_shot_http_def rule_role_play_http_def rule_structured_output_http_def
        rule_model_optimize_http_def rule_enhance_clarity_http_def rule_add_testing_http_def
        analysis_empty)
  show ?thesis using r e by simp
qed

text \<open>
  C1, amended: for every prompt and every target model, \<^verbatim>\<open>apply_engineering_rules\<close> of
  the tool server with the empty rule list returns no applied rule and the prompt
  unchanged. \<^verbatim>\<open>apply_engineering_rules\<close> of the HTTP server with the empty rule list
  applies, in this order, \<open>chain_of_thought\<close> when \<open>needs_reasoning\<close> holds, \<open>few_shot\<close>
  when \<open>needs_examples\<close> holds and the example lookup finds a match, \<open>role_play\<close> when
  \<open>needs_expertise\<close> holds and the role lookup finds a match, \<open>structured_output\<close> when
  \<open>needs_structure\<close> holds and \<open>enhance_clarity\<close> when the clarity score is below 0.7;
  it returns the prompt unchanged when it applies none of them.
\<close>

theorem passthrough_empty_rules:
  "rules_applied (apply_engineering_rules p (Some []) m) = []
   \<and> engineered_prompt (apply_engineering_rules p (Some []) m) = p
   \<and> rules_applied (apply_engineering_rules_http (request p [] m)) =
       fires (needs_reasoning (analyze_prompt_structure p)) ''chain_of_thought'' @
       fires (needs_examples (analyze_prompt_structure p) \<and> generate_few_shot_examples p \<noteq> [])
         ''few_shot'' @
       fires (needs_expertise (analyze_prompt_structure p) \<and> determine_expert_role p \<noteq> [])
         ''role_play'' @
       fires (needs_structure (analyze_prompt_structure p)) ''structured_output'' @
       fires (clarity_score (analyze_prompt_structure p) < 7 / 10) ''enhance_clarity''
   \<and> (rules_applied (apply_engineering_rules_http (request p [] m)) = []
        \<longrightarrow> engineered_prompt (apply_engineering_rules_http (request p [] m)) = p)"
  using tool_passthrough [of p m] rules_applied_http_empty [of p m] http_passthrough [of p m]
  by blast

theorem passthrough_empty_rules_witness:
  "rules_applied (apply_engineering_rules_http
      (request ''aaaa bbbb cccc dddd eeee ffff gggg'' [] ''general'')) = []
   \<and> engineered_prompt (apply_engineering_rules_http
      (request ''aaaa bbbb cccc dddd eeee ffff gggg'' [] ''general''))
       = ''aaaa bbbb cccc dddd eeee ffff gggg''"
proof -
  have r: "rules_applied (apply_engineering_rules_http
      (request ''aaaa bbbb cccc dddd eeee ffff gggg'' [] ''general'')) = []"
    by (simp add: rules_applied_http_empty analysis_seven_words)
  show ?thesis
    using r passthrough_empty_rules [of "''aaaa bbbb cccc dddd eeee ffff gggg''" "''general''"]
    by blast
qed

section \<open>The two scenarios\<close>

lemma score_of_tool:
  "optimization_score (apply_engineering_rules p rs m) =
     calculate_optimization_score (analyze_prompt_structure p)
       (rules_applied (apply_engineering_rules p rs m))"
  by (simp add: apply_engineering_rules_def Let_def)

lemma analysis_of_tool: "analysis (apply_engineering_rules p rs m) = analyze_prompt_structure p"
  by (simp add: apply_engineering_rules_def Let_def)

lemma default_rules:
  "apply_engineering_rules p None m = apply_engineering_rules p (Some [''auto_optimize'']) m"
  by (simp add: apply_engineering_rules_def)

lemma rules_applied_empty_prompt:
  "rules_applied (apply_engineering_rules [] (Some [''auto_optimize'']) ''general'')
     = [''expert_system'', ''enhance_clarity'']"
  by (simp add: rules_applied_tool fires_def analysis_empty lookups_empty)

text \<open>
  C3, as stated: for the empty prompt with the rule list \<open>[auto_optimize]\<close> and the target
  model \<open>general\<close>, \<open>expert_system\<close> is the only rule applied and the optimization score
  is 0.3. Both fail: \<open>enhance_clarity\<close> is applied too, and the score is not 0.3.
\<close>

theorem empty_prompt_counterexample:
  "rules_applied (apply_engineering_rules [] (Some [''auto_optimize'']) ''general'') \<noteq> [''expert_system'']
   \<and> optimization_score (apply_engineering_rules [] (Some [''auto_optimize'']) ''general'') \<noteq> 3 / 10"
  by (simp add: score_of_tool rules_applied_empty_prompt analysis_empty
      calculate_optimization_score_def)

text \<open>
  C3, amended: for the empty prompt with the rule list \<open>[auto_optimize]\<close> (which is also the
  default) and the target model \<open>general\<close>, the analysis has \<open>word_count = 0\<close> and
  \<open>clarity_score = 0\<close>, all four \<open>needs_*\<close> flags are false, the rules applied are
  \<open>expert_system\<close> and \<open>enhance_clarity\<close>, and the optimization score is 0.38.
\<close>

theorem empty_prompt_scenario:
  "word_count (analysis (apply_engineering_rules [] (Some [''auto_optimize'']) ''general'')) = 0
   \<and> clarity_score (analysis (apply_engineering_rules [] (Some [''auto_optimize'']) ''general'')) = 0
   \<and> \<not> needs_reasoning (analysis (apply_engineering_rules [] (Some [''auto_optimize'']) ''general''))
   \<and> \<not> needs_examples (analysis (apply_engineering_rules [] (Some [''auto_optimize'']) ''general''))
   \<and> \<not> needs_expertise (analysis (apply_engineering_rules [] (Some [''auto_optimize'']) ''general''))
   \<and> \<not> needs_structure (analysis (apply_engineering_rules [] (Some [''auto_optimize'']) ''general''))
   \<and> rules_applied (apply_engineering_rules [] (Some [''auto_optimize'']) ''general'')
       = [''expert_system'', ''enhance_clarity'']
   \<and> optimization_score (apply_engineering_rules [] (Some [''auto_optimize'']) ''general'') = 38 / 100
   \<and> apply_engineering_rules [] None ''general''
       = apply_engineering_rules [] (Some [''auto_optimize'']) ''general''"
  by (simp add: score_of_tool analysis_of_tool rules_applied_empty_prompt analysis_empty
      calculate_optimization_score_def default_rules)

lemma analysis_binary_search:
  "analyze_prompt_structure ''How do I implement a binary search?'' =
     \<lparr> length_chars = 35, word_count = 7, has_clear_task = False, has_context = False,
       has_examples = False, has_constraints = False, question_count = 1,
       needs_reasoning = True, needs_examples = True, needs_expertise = False,
       needs_structure = False, clarity_score = 3 / 10 \<rparr>"
  by (simp add: analyze_prompt_structure_def str_eval)

lemma lookups_binary_search:
  "generate_few_shot_examples ''How do I implement a binary search?'' = []"
  "determine_expert_role ''How do I implement a binary search?'' = []"
  by (simp_all add: generate_few_shot_examples_def determine_expert_role_def str_eval)

text \<open>
  C8. For the prompt \<open>How do I implement a binary search?\<close> with the rule list
  \<open>[auto_optimize]\<close> and the target model \<open>general\<close>, the analysis has
  \<open>needs_reasoning\<close> and \<open>needs_examples\<close> true and \<open>has_clear_task\<close> false, and neither
  \<open>role_play\<close> nor \<open>few_shot\<close> is among the applied rules: the gate of \<open>few_shot\<close> passes
  but the example lookup finds no match, and the role lookup finds no keyword. The applied
  rules are \<open>expert_system\<close>, \<open>chain_of_thought\<close> and \<open>enhance_clarity\<close>.
\<close>

theorem binary_search_scenario:
  "needs_reasoning (analysis (apply_engineering_rules ''How do I implement a binary search?''
      (Some [''auto_optimize'']) ''general''))
   \<and> needs_examples (analysis (apply_engineering_rules ''How do I implement a binary search?''
      (Some [''auto_optimize'']) ''general''))
   \<and> \<not> has_clear_task (analysis (apply_engineering_rules ''How do I implement a binary search?''
      (Some [''auto_optimize'']) ''general''))
   \<and> ''role_play'' \<notin> set (rules_applied (apply_engineering_rules
        ''How do I implement a binary search?'' (Some [''auto_optimize'']) ''general''))
   \<and> ''few_shot'' \<notin> set (rules_applied (apply_engineering_rules
        ''How do I implement a binary search?'' (Some [''auto_optimize'']) ''general''))
   \<and> rules_applied (apply_engineering_rules
        ''How do I implement a binary search?'' (Some [''auto_optimize'']) ''general'')
       = [''expert_system'', ''chain_of_thought'', ''enhance_clarity'']
   \<and> generate_few_shot_examples ''How do I implement a binary search?'' = []
   \<and> determine_expert_role ''How do I implement a binary search?'' = []"
  by (simp add: analysis_of_tool rules_applied_tool analysis_binary_search lookups_binary_search
      fires_def)

section \<open>Gated rules whose lookup finds nothing\<close>

lemma mem_rules_applied_tool:
  "''few_shot'' \<in> set (rules_applied (apply_engineering_rules p (Some rs) m)) \<Longrightarrow>
     generate_few_shot_examples p \<noteq> []"
  "''role_play'' \<in> set (rules_applied (apply_engineering_rules p (Some rs) m)) \<Longrightarrow>
     determine_expert_role p \<noteq> []"
  "''model_optimize'' \<in> set (rules_applied (apply_engineering_rules p (Some rs) m)) \<Longrightarrow>
     apply_model_specific_rules [] m \<noteq> []"
  by (simp_all add: rules_applied_tool)

text \<open>
  C5. When the prompt holds none of the keywords \<open>code\<close>, \<open>programming\<close>, \<open>write\<close>,
  \<open>content\<close>, the \<open>few_shot\<close> block leaves the engineered prompt and the list of applied
  rules as they are, whether its gate passes or not, and \<open>few_shot\<close> is not among the
  rules applied by the engine. The same holds for \<open>role_play\<close> when the prompt holds none
  of the role keywords, and for \<open>model_optimize\<close> when the target model holds none of
  \<open>gpt\<close>, \<open>claude\<close>, \<open>gemini\<close>.
\<close>

theorem unmatched_lookup_is_noop:
  "(\<not> py_in ''code'' (lower p) \<and> \<not> py_in ''programming'' (lower p)
      \<and> \<not> py_in ''write'' (lower p) \<and> \<not> py_in ''content'' (lower p)
     \<longrightarrow> rule_few_shot a rs p st = st
         \<and> ''few_shot'' \<notin> set (rules_applied (apply_engineering_rules p (Some rs) m)))
   \<and> (\<not> any_in [''code'', ''programming'', ''software'', ''debug'', ''write'', ''content'',
                 ''marketing'', ''copy'', ''analyze'', ''data'', ''research'', ''design'', ''ui'',
                 ''ux'', ''interface'', ''business'', ''strategy'', ''plan''] (lower p)
     \<longrightarrow> rule_role_play a rs p st = st
         \<and> ''role_play'' \<notin> set (rules_applied (apply_engineering_rules p (Some rs) m)))
   \<and> (\<not> py_in ''gpt'' (lower m) \<and> \<not> py_in ''claude'' (lower m) \<and> \<not> py_in ''gemini'' (lower m)
     \<longrightarrow> rule_model_optimize rs m st = st
         \<and> ''model_optimize'' \<notin> set (rules_applied (apply_engineering_rules p (Some rs) m)))"
proof (intro conjI impI)
  assume "\<not> py_in ''code'' (lower p) \<and> \<not> py_in ''programming'' (lower p)
      \<and> \<not> py_in ''write'' (lower p) \<and> \<not> py_in ''content'' (lower p)"
  then have none: "generate_few_shot_examples p = []"
    by (simp add: generate_few_shot_examples_def)
  show "rule_few_shot a rs p st = st"
    by (simp add: rule_few_shot_def none)
  show "''few_shot'' \<notin> set (rules_applied (apply_engineering_rules p (Some rs) m))"
    using none mem_rules_applied_tool(1) by blast
next
  assume "\<not> any_in [''code'', ''programming'', ''software'', ''debug'', ''write'', ''content'',
                 ''marketing'', ''copy'', ''analyze'', ''data'', ''research'', ''design'', ''ui'',
                 ''ux'', ''interface'', ''business'', ''strategy'', ''plan''] (lower p)"
  then have none: "determine_expert_role p = []"
    by (simp add: determine_expert_role_def any_in_def)
  show "rule_role_play a rs p st = st"
    by (simp add: rule_role_play_def none)
  show "''role_play'' \<notin> set (rules_applied (apply_engineering_rules p (Some rs) m))"
    using none mem_rules_applied_tool(2) by blast
next
  assume "\<not> py_in ''gpt'' (lower m) \<and> \<not> py_in ''claude'' (lower m) \<and> \<not> py_in ''gemini'' (lower m)"
  then have none: "apply_model_specific_rules x m = []" for x
    by (simp add: apply_model_specific_rules_def)
  show "rule_model_optimize rs m st = st"
    by (simp add: rule_model_optimize_def none)
  show "''model_optimize'' \<notin> set (rules_applied (apply_engineering_rules p (Some rs) m))"
    using none mem_rules_applied_tool(3) by blast
qed

theorem unmatched_lookup_is_noop_witness:
  "(\<not> py_in ''code'' (lower ''How do I implement a binary search?'')
      \<and> \<not> py_in ''programming'' (lower ''How do I implement a binary search?'')
      \<and> \<not> py_in ''write'' (lower ''How do I implement a binary search?'')
      \<and> \<not> py_in ''content'' (lower ''How do I implement a binary search?''))
   \<and> \<not> any_in [''code'', ''programming'', ''software'', ''debug'', ''write'', ''content'',
                 ''marketing'', ''copy'', ''analyze'', ''data'', ''research'', ''design'', ''ui'',
                 ''ux'', ''interface'', ''business'', ''strategy'', ''plan'']
          (lower ''How do I implement a binary search?'')
   \<and> (\<not> py_in ''gpt'' (lower ''general'') \<and> \<not> py_in ''claude'' (lower ''general'')
        \<and> \<not> py_in ''gemini'' (lower ''general''))
   \<and> rule_few_shot (analyze_prompt_structure ''How do I implement a binary search?'')
        [''few_shot'', ''role_play'', ''model_optimize''] ''How do I implement a binary search?''
        (''How do I implement a binary search?'', [])
       = (''How do I implement a binary search?'', [])
   \<and> rule_role_play (analyze_prompt_structure ''How do I implement a binary search?'')
        [''few_shot'', ''role_play'', ''model_optimize''] ''How do I implement a binary search?''
        (''How do I implement a binary search?'', [])
       = (''How do I implement a binary search?'', [])
   \<and> rule_model_optimize [''few_shot'', ''role_play'', ''model_optimize''] ''general''
        (''How do I implement a binary search?'', [])
       = (''How do I implement a binary search?'', [])
   \<and> ''few_shot'' \<notin> set (rules_applied (apply_engineering_rules
        ''How do I implement a binary search?''
        (Some [''few_shot'', ''role_play'', ''model_optimize'']) ''general''))
   \<and> ''role_play'' \<notin> set (rules_applied (apply_engineering_rules
        ''How do I implement a binary search?''
        (Some [''few_shot'', ''role_play'', ''model_optimize'']) ''general''))
   \<and> ''model_optimize'' \<notin> set (rules_applied (apply_engineering_rules
        ''How do I implement a binary search?''
        (Some [''few_shot'', ''role_play'', ''model_optimize'']) ''general''))"
proof -
  have h1: "\<not> py_in ''code'' (lower ''How do I implement a binary search?'')
      \<and> \<not> py_in ''programming'' (lower ''How do I implement a binary search?'')
      \<and> \<not> py_in ''write'' (lower ''How do I implement a binary search?'')
      \<and> \<not> py_in ''content'' (lower ''How do I implement a binary search?'')"
    by (simp add: str_eval)
  have h2: "\<not> any_in [''code'', ''programming'', ''software'', ''debug'', ''write'', ''content'',
                 ''marketing'', ''copy'', ''analyze'', ''data'', ''research'', ''design'', ''ui'',
                 ''ux'', ''interface'', ''business'', ''strategy'', ''plan'']
          (lower ''How do I implement a binary search?'')"
    by (simp add: str_eval)
  have h3: "\<not> py_in ''gpt'' (lower ''general'') \<and> \<not> py_in ''claude'' (lower ''general'')
        \<and> \<not> py_in ''gemini'' (lower ''general'')"
    by (simp add: str_eval)
  show ?thesis
    using h1 h2 h3
      unmatched_lookup_is_noop [of "''How do I implement a binary search?''"
        "analyze_prompt_structure ''How do I implement a binary search?''"
        "[''few_shot'', ''role_play'', ''model_optimize'']"
        "(''How do I implement a binary search?'', [])" "''general''"]
    by blast
qed

section \<open>The boundaries reject a missing prompt\<close>

lemma http_missing_raw_prompt:
  "raw_prompt rd = None \<Longrightarrow>
     validate_prompt True (Some rd) = Failed 400 ''Missing required field: raw_prompt''"
  by (simp add: validate_prompt_def)

lemma http_empty_raw_prompt_reaches_engine:
  "raw_prompt rd = Some [] \<Longrightarrow>
     validate_prompt True (Some rd) = Success (apply_engineering_rules_http rd)"
  by (simp add: validate_prompt_def)

lemma tool_accepts_prompt:
  "p \<noteq> [] \<Longrightarrow>
     handle_call_tool ''validate_prompt''
       (Some \<lparr> prompt = Some p, rules = Some rs, model_arg = Some m, focus_area = f \<rparr>)
     = Validation_report (apply_engineering_rules p (Some rs) m)"
  by (simp add: handle_call_tool_def)

text \<open>
  C10. At the tool boundary, a call of \<open>validate_prompt\<close> whose prompt argument is missing
  or empty, or that carries no arguments at all, is answered with the error text
  \<open>Error: No prompt provided\<close>, whatever the rules and the model are; the answer is not a
  report built from a result of the engine.
\<close>

theorem tool_rejects_missing_prompt:
  "(prompt args = None \<or> prompt args = Some []
      \<longrightarrow> handle_call_tool ''validate_prompt'' (Some args) = Error_text ''Error: No prompt provided''
          \<and> (\<forall>r. handle_call_tool ''validate_prompt'' (Some args) \<noteq> Validation_report r))
   \<and> handle_call_tool ''validate_prompt'' None = Error_text ''Error: No prompt provided''
   \<and> (\<forall>r. handle_call_tool ''validate_prompt'' None \<noteq> Validation_report r)"
  by (auto simp: handle_call_tool_def)

theorem tool_rejects_missing_prompt_witness:
  "prompt \<lparr> prompt = Some [], rules = Some [''auto_optimize'', ''add_testing''],
            model_arg = Some ''gpt-4'', focus_area = None \<rparr> = Some []
   \<and> handle_call_tool ''validate_prompt''
        (Some \<lparr> prompt = Some [], rules = Some [''auto_optimize'', ''add_testing''],
                model_arg = Some ''gpt-4'', focus_area = None \<rparr>)
       = Error_text ''Error: No prompt provided''
   \<and> prompt \<lparr> prompt = None, rules = None, model_arg = None, focus_area = None \<rparr> = None
   \<and> handle_call_tool ''validate_prompt''
        (Some \<lparr> prompt = None, rules = None, model_arg = None, focus_area = None \<rparr>)
       = Error_text ''Error: No prompt provided''"
proof -
  have h1: "prompt \<lparr> prompt = Some [], rules = Some [''auto_optimize'', ''add_testing''],
            model_arg = Some ''gpt-4'', focus_area = None \<rparr> = Some []"
    by simp
  have h2: "prompt \<lparr> prompt = None, rules = None, model_arg = None, focus_area = None \<rparr> = None"
    by simp
  show ?thesis
    using h1 h2
      tool_rejects_missing_prompt [of "\<lparr> prompt = Some [], rules = Some [''auto_optimize'', ''add_testing''],
            model_arg = Some ''gpt-4'', focus_area = None \<rparr>"]
      tool_rejects_missing_prompt [of "\<lparr> prompt = None, rules = None, model_arg = None, focus_area = None \<rparr>"]
    by blast
qed


end
